theory Spec2Isabelle
  imports Main "HOL-Library.Word"
begin

section \<open>JavaScript values, rows and thrown values\<close>

text \<open>
  The integration in \<^verbatim>\<open>packages/server/src/integrations/microsoftSqlServer.ts\<close> works on
  what the \<^verbatim>\<open>mssql\<close> driver hands back: a result object whose \<^verbatim>\<open>recordset\<close> is either
  \<^verbatim>\<open>undefined\<close> or an array of rows, a row being an object from column names to primitive
  values. The numbers of the model are the 32-bit integers, read as signed: what the
  \<^verbatim>\<open>int\<close> columns of the catalog views deliver, among them the flags \<^verbatim>\<open>IS_COMPUTED\<close> and
  \<^verbatim>\<open>IS_IDENTITY\<close> (0 or 1). JavaScript prints every such number in plain decimal.
\<close>

datatype jsval = Undefined | Null | Bool bool | Num "32 word" | Str string

type_synonym row = "(string \<times> jsval) list"

text \<open>Property access \<^verbatim>\<open>row.key\<close>: a missing property reads as \<^verbatim>\<open>undefined\<close>.\<close>

definition js_prop :: "row \<Rightarrow> string \<Rightarrow> jsval" where
  "js_prop r k = (case map_of r k of None \<Rightarrow> Undefined | Some v \<Rightarrow> v)"

text \<open>Truthiness, as \<^verbatim>\<open>||\<close>, \<^verbatim>\<open>!!\<close> and \<^verbatim>\<open>filter\<close> test it.\<close>

fun truthy :: "jsval \<Rightarrow> bool" where
  "truthy Undefined = False"
| "truthy Null = False"
| "truthy (Bool b) = b"
| "truthy (Num n) = (n \<noteq> 0)"
| "truthy (Str s) = (s \<noteq> [])"

definition digit_char :: "nat \<Rightarrow> char" where
  "digit_char d = ''0123456789'' ! d"

fun show_nat :: "nat \<Rightarrow> string" where
  "show_nat n = (if n < 10 then [digit_char n] else show_nat (n div 10) @ [digit_char (n mod 10)])"

declare show_nat.simps [simp del]

text \<open>String conversion of a primitive, as a template literal applies it.\<close>

fun to_string :: "jsval \<Rightarrow> string" where
  "to_string Undefined = ''undefined''"
| "to_string Null = ''null''"
| "to_string (Bool b) = (if b then ''true'' else ''false'')"
| "to_string (Num n) =
     (if sint n < 0 then ''-'' @ show_nat (nat (- sint n)) else show_nat (nat (sint n)))"
| "to_string (Str s) = s"

text \<open>
  A thrown value is an error object (its \<^verbatim>\<open>name\<close> and \<^verbatim>\<open>message\<close>: the driver's
  \<^verbatim>\<open>RequestError\<close> and \<^verbatim>\<open>ConnectionError\<close>, the runtime's \<^verbatim>\<open>TypeError\<close>, a plain \<^verbatim>\<open>Error\<close>)
  or a string (\<^verbatim>\<open>buildSchema\<close> throws one).
\<close>

datatype thrown = Error_object (err_name: string) (err_message: string) | Thrown_string string

text \<open>\<^verbatim>\<open>String(err)\<close>: \<^verbatim>\<open>Error.prototype.toString\<close> for an error object, the string itself otherwise.\<close>

fun String_of :: "thrown \<Rightarrow> string" where
  "String_of (Error_object n m) = (if n = [] then m else if m = [] then n else n @ '': '' @ m)"
| "String_of (Thrown_string s) = s"

text \<open>\<^verbatim>\<open>new Error(err)\<close>: a plain \<^verbatim>\<open>Error\<close> whose message is \<^verbatim>\<open>String(err)\<close>.\<close>

definition new_Error :: "thrown \<Rightarrow> thrown" where
  "new_Error err = Error_object ''Error'' (String_of err)"

text \<open>
  The runtime's \<^verbatim>\<open>TypeError\<close> for a property read or a call on \<^verbatim>\<open>undefined\<close>. Its message
  is the engine's wording; no statement below depends on it.
\<close>

definition TypeError_reading :: "string \<Rightarrow> thrown" where
  "TypeError_reading p =
     Error_object ''TypeError'' (''Cannot read properties of undefined (reading '' @ [CHR 0x27] @ p @ [CHR 0x27] @ '')'')"

definition TypeError_not_iterable :: "string \<Rightarrow> thrown" where
  "TypeError_not_iterable v = Error_object ''TypeError'' (v @ '' is not iterable'')"

section \<open>Queries, the driver and the helpers outside this file\<close>

record SqlQuery =
  sql :: string
  bindings :: "jsval list option"

datatype query_input = Query_string string | Query_object SqlQuery

record response =
  recordset :: "row list option"

type_synonym pool = nat
type_synonym client = nat

text \<open>A request: the parameters registered by \<^verbatim>\<open>request.input(name, value)\<close>, in order.\<close>

type_synonym request = "(string \<times> jsval) list"

text \<open>
  The driver, over a state \<open>'d\<close> of its own (the database, the connections):
  \<^verbatim>\<open>pool.connect()\<close> and \<^verbatim>\<open>request.query(sql)\<close> either throw or resolve, and change that
  state. \<^verbatim>\<open>client.request()\<close> only constructs the request object and
  \<^verbatim>\<open>request.input\<close> only records the parameter.
\<close>

record 'd driver =
  pool_connect :: "pool \<Rightarrow> 'd \<Rightarrow> (thrown + client) \<times> 'd"
  request_query :: "client \<Rightarrow> request \<Rightarrow> string \<Rightarrow> 'd \<Rightarrow> (thrown + response) \<times> 'd"

record field_schema =
  autocolumn :: bool
  f_name :: string
  f_type :: string

text \<open>
  A plain object used as a dictionary is modelled by the map of its own properties.
  \<^verbatim>\<open>obj[key] = value\<close> with an object for \<^verbatim>\<open>value\<close> creates or overwrites the own property
  \<^verbatim>\<open>key\<close>, except for the key \<^verbatim>\<open>__proto__\<close>: that assignment runs the setter inherited from
  \<^verbatim>\<open>Object.prototype\<close>, which replaces the prototype of \<^verbatim>\<open>obj\<close> and creates no own property.
\<close>

definition js_set :: "(string \<rightharpoonup> 'v) \<Rightarrow> string \<Rightarrow> 'v \<Rightarrow> (string \<rightharpoonup> 'v)" where
  "js_set obj key v = (if key = ''__proto__'' then obj else obj(key \<mapsto> v))"

record table =
  t_id :: string
  t_primary :: "jsval list"
  t_name :: jsval
  t_schema :: "string \<rightharpoonup> field_schema"

text \<open>
  A table as the caller stores it: the four properties above and the caller-owned ones
  (views, display column, import data), which \<^verbatim>\<open>buildSchema\<close> never sets.
\<close>

record stored_table = table +
  caller_owned :: row

text \<open>
  The functions imported from \<^verbatim>\<open>./utils\<close> and the constant \<^verbatim>\<open>Operation.CREATE\<close> of
  \<^verbatim>\<open>../definitions/datasource\<close> belong to other modules; the integration is modelled over
  any implementation of them. As the spec has them, \<^verbatim>\<open>convertSqlType\<close> is a total function
  of the native type (spec 4.1) and \<^verbatim>\<open>buildExternalTableId\<close> a function of the datasource
  id and the table name alone (spec 3).
\<close>

record utils =
  getSqlQuery :: "query_input \<Rightarrow> SqlQuery"
  buildExternalTableId :: "string \<Rightarrow> jsval \<Rightarrow> string"
  convertSqlType :: "jsval \<Rightarrow> string"
  finaliseExternalTables ::
    "(string \<rightharpoonup> table) \<Rightarrow> (string \<rightharpoonup> stored_table)
       \<Rightarrow> (string \<rightharpoonup> stored_table) \<times> (string \<rightharpoonup> string)"
  Operation_CREATE :: string

section \<open>internalQuery\<close>

text \<open>The loop \<^verbatim>\<open>for (let binding of query.bindings) request.input(`p${count++}`, binding)\<close>.\<close>

fun input_bindings :: "nat \<Rightarrow> jsval list \<Rightarrow> request \<Rightarrow> request" where
  "input_bindings count [] req = req"
| "input_bindings count (binding # rest) req =
     input_bindings (Suc count) rest (req @ [(''p'' @ show_nat count, binding)])"

definition internalQuery ::
  "'d driver \<Rightarrow> utils \<Rightarrow> client option \<Rightarrow> SqlQuery \<Rightarrow> string option \<Rightarrow> 'd
     \<Rightarrow> (thrown + response) \<times> 'd" where
  "internalQuery D U cl query operation d =
     (case cl of
        None \<Rightarrow> (Inl (TypeError_reading ''request''), d)
      | Some c \<Rightarrow>
          (let request = (case bindings query of
                            Some bs \<Rightarrow> input_bindings 0 bs []
                          | None \<Rightarrow> []);
               text = (if operation = Some (Operation_CREATE U)
                       then sql query @ ''; SELECT SCOPE_IDENTITY() AS id;''
                       else sql query)
           in case request_query D c request text d of
                (Inl err, d') \<Rightarrow> (Inl (new_Error err), d')
              | (Inr res, d') \<Rightarrow> (Inr res, d')))"

section \<open>The integration: constructor, connect and the CRUD methods\<close>

record MSSQLConfig =
  user :: string
  password :: string
  server :: string
  port :: int
  database :: string
  encrypt :: "bool option"

text \<open>
  \<^verbatim>\<open>clientCfg\<close>: the configuration spread, \<^verbatim>\<open>encrypt\<close> deleted from it, and the
  \<^verbatim>\<open>options\<close> object.
\<close>

record clientCfg =
  spread :: MSSQLConfig
  options_encrypt :: "bool option"
  options_enableArithAbort :: bool

text \<open>
  The process: the static slot \<^verbatim>\<open>SqlServerIntegration.pool\<close> the class declares, and every
  \<^verbatim>\<open>ConnectionPool\<close> constructed so far (a pool is named by its position).
\<close>

record process =
  static_pool :: "pool option"
  pools :: "clientCfg list"

record integration =
  config :: MSSQLConfig
  this_pool :: "pool option"
  this_client :: "client option"
  this_tables :: "string \<rightharpoonup> stored_table"
  this_schemaErrors :: "string \<rightharpoonup> string"

definition new_ConnectionPool :: "clientCfg \<Rightarrow> process \<Rightarrow> pool \<times> process" where
  "new_ConnectionPool cfg pr = (length (pools pr), pr\<lparr>pools := pools pr @ [cfg]\<rparr>)"

text \<open>
  The constructor. After \<^verbatim>\<open>super(...)\<close> and the field initialisers the new instance has no
  property \<^verbatim>\<open>pool\<close> (the class declares \<^verbatim>\<open>pool\<close> static, and a static member is a property
  of the class, not of its instances), so \<^verbatim>\<open>this.pool\<close> reads \<^verbatim>\<open>undefined\<close> at the guard.
\<close>

definition new_SqlServerIntegration :: "MSSQLConfig \<Rightarrow> process \<Rightarrow> integration \<times> process" where
  "new_SqlServerIntegration cfg pr =
     (let this = \<lparr>config = cfg, this_pool = None, this_client = None,
                  this_tables = Map.empty, this_schemaErrors = Map.empty\<rparr>;
          clientCfg = \<lparr>spread = (config this)\<lparr>encrypt := None\<rparr>,
                       options_encrypt = encrypt (config this),
                       options_enableArithAbort = True\<rparr>
      in case this_pool this of
           None \<Rightarrow> (case new_ConnectionPool clientCfg pr of
                      (p, pr') \<Rightarrow> (this\<lparr>this_pool := Some p\<rparr>, pr'))
         | Some p \<Rightarrow> (this, pr))"

definition connect ::
  "'d driver \<Rightarrow> integration \<Rightarrow> 'd \<Rightarrow> (thrown + unit) \<times> integration \<times> 'd" where
  "connect D this d =
     (case this_pool this of
        None \<Rightarrow> (Inl (new_Error (TypeError_reading ''connect'')), this, d)
      | Some p \<Rightarrow>
          (case pool_connect D p d of
             (Inl err, d') \<Rightarrow> (Inl (new_Error err), this, d')
           | (Inr c, d') \<Rightarrow> (Inr (), this\<lparr>this_client := Some c\<rparr>, d')))"

definition runSQL ::
  "'d driver \<Rightarrow> utils \<Rightarrow> integration \<Rightarrow> string \<Rightarrow> 'd \<Rightarrow> (thrown + row list option) \<times> 'd" where
  "runSQL D U this text d =
     (case internalQuery D U (this_client this) (getSqlQuery U (Query_string text)) None d of
        (Inl err, d') \<Rightarrow> (Inl err, d')
      | (Inr res, d') \<Rightarrow> (Inr (recordset res), d'))"

definition read ::
  "'d driver \<Rightarrow> utils \<Rightarrow> query_input \<Rightarrow> integration \<Rightarrow> 'd
     \<Rightarrow> (thrown + row list option) \<times> integration \<times> 'd" where
  "read D U query this d =
     (case connect D this d of
        (Inl err, this', d') \<Rightarrow> (Inl err, this', d')
      | (Inr _, this', d') \<Rightarrow>
          (case internalQuery D U (this_client this') (getSqlQuery U query) None d' of
             (Inl err, d'') \<Rightarrow> (Inl err, this', d'')
           | (Inr res, d'') \<Rightarrow> (Inr (recordset res), this', d'')))"

text \<open>
  \<^verbatim>\<open>response.recordset || [marker]\<close>: an array (even an empty one) is truthy,
  \<^verbatim>\<open>undefined\<close> is not.
\<close>

definition js_or :: "row list option \<Rightarrow> row list \<Rightarrow> row list" where
  "js_or a b = (case a of Some rows \<Rightarrow> rows | None \<Rightarrow> b)"

definition create ::
  "'d driver \<Rightarrow> utils \<Rightarrow> query_input \<Rightarrow> integration \<Rightarrow> 'd
     \<Rightarrow> (thrown + row list) \<times> integration \<times> 'd" where
  "create D U query this d =
     (case connect D this d of
        (Inl err, this', d') \<Rightarrow> (Inl err, this', d')
      | (Inr _, this', d') \<Rightarrow>
          (case internalQuery D U (this_client this') (getSqlQuery U query) None d' of
             (Inl err, d'') \<Rightarrow> (Inl err, this', d'')
           | (Inr res, d'') \<Rightarrow>
               (Inr (js_or (recordset res) [[(''created'', Bool True)]]), this', d'')))"

definition update ::
  "'d driver \<Rightarrow> utils \<Rightarrow> query_input \<Rightarrow> integration \<Rightarrow> 'd
     \<Rightarrow> (thrown + row list) \<times> integration \<times> 'd" where
  "update D U query this d =
     (case connect D this d of
        (Inl err, this', d') \<Rightarrow> (Inl err, this', d')
      | (Inr _, this', d') \<Rightarrow>
          (case internalQuery D U (this_client this') (getSqlQuery U query) None d' of
             (Inl err, d'') \<Rightarrow> (Inl err, this', d'')
           | (Inr res, d'') \<Rightarrow>
               (Inr (js_or (recordset res) [[(''updated'', Bool True)]]), this', d'')))"

definition delete ::
  "'d driver \<Rightarrow> utils \<Rightarrow> query_input \<Rightarrow> integration \<Rightarrow> 'd
     \<Rightarrow> (thrown + row list) \<times> integration \<times> 'd" where
  "delete D U query this d =
     (case connect D this d of
        (Inl err, this', d') \<Rightarrow> (Inl err, this', d')
      | (Inr _, this', d') \<Rightarrow>
          (case internalQuery D U (this_client this') (getSqlQuery U query) None d' of
             (Inl err, d'') \<Rightarrow> (Inl err, this', d'')
           | (Inr res, d'') \<Rightarrow>
               (Inr (js_or (recordset res) [[(''deleted'', Bool True)]]), this', d'')))"

text \<open>
  \<^verbatim>\<open>query(json)\<close>: \<^verbatim>\<open>_operation\<close> and \<^verbatim>\<open>queryWithReturning\<close> are methods of the base class
  \<^verbatim>\<open>Sql\<close>, defined in \<^verbatim>\<open>./base/sql\<close>, so they are arguments here; the two functions handed
  to \<^verbatim>\<open>queryWithReturning\<close> are those of the source.
\<close>

definition queryFn ::
  "'d driver \<Rightarrow> utils \<Rightarrow> integration \<Rightarrow> SqlQuery \<Rightarrow> string \<Rightarrow> 'd \<Rightarrow> (thrown + response) \<times> 'd" where
  "queryFn D U this query op = internalQuery D U (this_client this) query (Some op)"

definition processFn :: "string \<Rightarrow> response \<Rightarrow> row list" where
  "processFn operation result =
     (case recordset result of Some rows \<Rightarrow> rows | None \<Rightarrow> [[(operation, Bool True)]])"

definition query ::
  "('json \<Rightarrow> string) \<Rightarrow>
   ('json \<Rightarrow> (SqlQuery \<Rightarrow> string \<Rightarrow> 'd \<Rightarrow> (thrown + response) \<times> 'd) \<Rightarrow> (response \<Rightarrow> row list)
      \<Rightarrow> 'd \<Rightarrow> (thrown + 'res) \<times> 'd) \<Rightarrow>
   'd driver \<Rightarrow> utils \<Rightarrow> 'json \<Rightarrow> integration \<Rightarrow> 'd \<Rightarrow> (thrown + 'res) \<times> integration \<times> 'd" where
  "query operation_of queryWithReturning D U json this d =
     (case connect D this d of
        (Inl err, this', d') \<Rightarrow> (Inl err, this', d')
      | (Inr _, this', d') \<Rightarrow>
          (let operation = operation_of json
           in case queryWithReturning json (queryFn D U this') (processFn operation) d' of
                (r, d'') \<Rightarrow> (r, this', d'')))"

section \<open>buildSchema\<close>

definition MASTER_TABLES :: "string list" where
  "MASTER_TABLES =
     [''spt_fallback_db'', ''spt_fallback_dev'', ''spt_fallback_usg'', ''spt_monitor'',
      ''MSreplication_options'']"

definition sq :: string where
  "sq = [CHR 0x27]"

definition nl :: string where
  "nl = [CHR 0x0A]"

definition TABLES_SQL :: string where
  "TABLES_SQL =
     ''SELECT * FROM INFORMATION_SCHEMA.TABLES WHERE TABLE_TYPE='' @ sq @ ''BASE TABLE'' @ sq"

definition getDefinitionSQL :: "string \<Rightarrow> string" where
  "getDefinitionSQL tableName =
     ''select *'' @ nl @
     ''              from INFORMATION_SCHEMA.COLUMNS'' @ nl @
     ''              where TABLE_NAME='' @ sq @ tableName @ sq"

definition getConstraintsSQL :: "string \<Rightarrow> string" where
  "getConstraintsSQL tableName =
     ''SELECT * FROM INFORMATION_SCHEMA.TABLE_CONSTRAINTS AS TC '' @ nl @
     ''              INNER JOIN INFORMATION_SCHEMA.KEY_COLUMN_USAGE AS KU'' @ nl @
     ''                ON TC.CONSTRAINT_TYPE = '' @ sq @ ''PRIMARY KEY'' @ sq @ '' '' @ nl @
     ''                AND TC.CONSTRAINT_NAME = KU.CONSTRAINT_NAME '' @ nl @
     ''                AND KU.table_name='' @ sq @ tableName @ sq @ nl @
     ''              ORDER BY '' @ nl @
     ''                KU.TABLE_NAME,'' @ nl @
     ''                KU.ORDINAL_POSITION;''"

definition getAutoColumnsSQL :: "string \<Rightarrow> string" where
  "getAutoColumnsSQL tableName =
     ''SELECT '' @ nl @
     ''              COLUMNPROPERTY(OBJECT_ID(TABLE_SCHEMA+'' @ sq @ ''.'' @ sq @
       ''+TABLE_NAME),COLUMN_NAME,'' @ sq @ ''IsComputed'' @ sq @ '') '' @ nl @
     ''                AS IS_COMPUTED,'' @ nl @
     ''              COLUMNPROPERTY(object_id(TABLE_SCHEMA+'' @ sq @ ''.'' @ sq @
       ''+TABLE_NAME), COLUMN_NAME, '' @ sq @ ''IsIdentity'' @ sq @ '')'' @ nl @
     ''                AS IS_IDENTITY,'' @ nl @
     ''              *'' @ nl @
     ''              FROM INFORMATION_SCHEMA.COLUMNS'' @ nl @
     ''              WHERE TABLE_NAME='' @ sq @ tableName @ sq"

text \<open>\<^verbatim>\<open>array.indexOf(v)\<close> on an array of strings: strict equality, \<open>-1\<close> when absent.\<close>

fun indexOf :: "string list \<Rightarrow> jsval \<Rightarrow> int" where
  "indexOf [] v = - 1"
| "indexOf (x # xs) v =
     (if v = Str x then 0 else (let i = indexOf xs v in if i = - 1 then - 1 else i + 1))"

text \<open>\<^verbatim>\<open>array.find(p)\<close>: the first element that satisfies \<open>p\<close>, \<^verbatim>\<open>undefined\<close> when none does.\<close>

definition js_find :: "(jsval \<Rightarrow> bool) \<Rightarrow> jsval list \<Rightarrow> jsval" where
  "js_find p xs = (case List.find p xs of Some x \<Rightarrow> x | None \<Rightarrow> Undefined)"

definition primaryKeys_of :: "row list \<Rightarrow> jsval list" where
  "primaryKeys_of constraints =
     map (\<lambda>constraint. js_prop constraint ''COLUMN_NAME'')
       (filter (\<lambda>constraint. js_prop constraint ''CONSTRAINT_TYPE'' = Str ''PRIMARY KEY'')
          constraints)"

definition autoColumns_of :: "row list \<Rightarrow> jsval list" where
  "autoColumns_of columns =
     map (\<lambda>col. js_prop col ''COLUMN_NAME'')
       (filter (\<lambda>col. truthy (js_prop col ''IS_COMPUTED'') \<or> truthy (js_prop col ''IS_IDENTITY''))
          columns)"

text \<open>The loop \<^verbatim>\<open>for (let def of definition)\<close> that fills \<^verbatim>\<open>schema\<close>.\<close>

fun schema_loop ::
  "utils \<Rightarrow> jsval list \<Rightarrow> row list \<Rightarrow> (string \<rightharpoonup> field_schema) \<Rightarrow> (string \<rightharpoonup> field_schema)" where
  "schema_loop U autoColumns [] schema = schema"
| "schema_loop U autoColumns (def # rest) schema =
     (case js_prop def ''COLUMN_NAME'' of
        Str name \<Rightarrow>
          schema_loop U autoColumns rest
            (js_set schema name
               \<lparr>autocolumn = truthy (js_find (\<lambda>col. col = Str name) autoColumns),
                f_name = name,
                f_type = convertSqlType U (js_prop def ''DATA_TYPE'')\<rparr>)
      | _ \<Rightarrow> schema_loop U autoColumns rest schema)"

text \<open>
  The body of the loop over the table names after its three fetches. A fetch that resolved
  without a recordset makes \<^verbatim>\<open>constraints.filter\<close>, \<^verbatim>\<open>columns.filter\<close> or the iteration of
  \<^verbatim>\<open>definition\<close> throw a \<^verbatim>\<open>TypeError\<close>, in that order.
\<close>

definition build_table ::
  "utils \<Rightarrow> string \<Rightarrow> jsval \<Rightarrow> row list option \<Rightarrow> row list option \<Rightarrow> row list option
     \<Rightarrow> thrown + table" where
  "build_table U datasourceId tableName definition constraints columns =
     (case constraints of
        None \<Rightarrow> Inl (TypeError_reading ''filter'')
      | Some constraint_rows \<Rightarrow>
          (case columns of
             None \<Rightarrow> Inl (TypeError_reading ''filter'')
           | Some column_rows \<Rightarrow>
               (case definition of
                  None \<Rightarrow> Inl (TypeError_not_iterable ''definition'')
                | Some defs \<Rightarrow>
                    (let primaryKeys = primaryKeys_of constraint_rows;
                         autoColumns = autoColumns_of column_rows;
                         schema = schema_loop U autoColumns defs Map.empty
                     in Inr \<lparr>t_id = buildExternalTableId U datasourceId tableName,
                             t_primary = primaryKeys,
                             t_name = tableName,
                             t_schema = schema\<rparr>))))"

text \<open>One round of the loop over the table names: the three fetches, then the table.\<close>

definition introspect_table ::
  "'d driver \<Rightarrow> utils \<Rightarrow> integration \<Rightarrow> string \<Rightarrow> jsval \<Rightarrow> 'd \<Rightarrow> (thrown + table) \<times> 'd" where
  "introspect_table D U this datasourceId tableName d =
     (case runSQL D U this (getDefinitionSQL (to_string tableName)) d of
        (Inl err, d1) \<Rightarrow> (Inl err, d1)
      | (Inr definition, d1) \<Rightarrow>
          (case runSQL D U this (getConstraintsSQL (to_string tableName)) d1 of
             (Inl err, d2) \<Rightarrow> (Inl err, d2)
           | (Inr constraints, d2) \<Rightarrow>
               (case runSQL D U this (getAutoColumnsSQL (to_string tableName)) d2 of
                  (Inl err, d3) \<Rightarrow> (Inl err, d3)
                | (Inr columns, d3) \<Rightarrow>
                    (build_table U datasourceId tableName definition constraints columns, d3))))"

text \<open>The loop \<^verbatim>\<open>for (let tableName of tableNames)\<close>: an exception leaves it at once.\<close>

fun introspect_tables ::
  "'d driver \<Rightarrow> utils \<Rightarrow> integration \<Rightarrow> string \<Rightarrow> jsval list \<Rightarrow> (string \<rightharpoonup> table) \<Rightarrow> 'd
     \<Rightarrow> (thrown + (string \<rightharpoonup> table)) \<times> 'd" where
  "introspect_tables D U this datasourceId [] tables d = (Inr tables, d)"
| "introspect_tables D U this datasourceId (tableName # rest) tables d =
     (case introspect_table D U this datasourceId tableName d of
        (Inl err, d') \<Rightarrow> (Inl err, d')
      | (Inr t, d') \<Rightarrow>
          introspect_tables D U this datasourceId rest (js_set tables (to_string tableName) t) d')"

text \<open>
  \<^verbatim>\<open>buildSchema\<close> up to the end of the loop: the freshly introspected \<^verbatim>\<open>tables\<close>, before
  \<^verbatim>\<open>finaliseExternalTables\<close> merges them with the stored entities.
\<close>

definition buildSchema_tables ::
  "'d driver \<Rightarrow> utils \<Rightarrow> string \<Rightarrow> integration \<Rightarrow> 'd
     \<Rightarrow> (thrown + (string \<rightharpoonup> table)) \<times> integration \<times> 'd" where
  "buildSchema_tables D U datasourceId this d =
     (case connect D this d of
        (Inl err, this', d') \<Rightarrow> (Inl err, this', d')
      | (Inr _, this', d') \<Rightarrow>
          (case runSQL D U this' TABLES_SQL d' of
             (Inl err, d1) \<Rightarrow> (Inl err, this', d1)
           | (Inr None, d1) \<Rightarrow>
               (Inl (Thrown_string ''Unable to get list of tables in database''), this', d1)
           | (Inr (Some records), d1) \<Rightarrow>
               (let tableNames =
                      filter (\<lambda>name. indexOf MASTER_TABLES name = - 1)
                        (map (\<lambda>record. js_prop record ''TABLE_NAME'') records)
                in case introspect_tables D U this' datasourceId tableNames Map.empty d1 of
                     (r, d2) \<Rightarrow> (r, this', d2))))"

definition buildSchema ::
  "'d driver \<Rightarrow> utils \<Rightarrow> string \<Rightarrow> (string \<rightharpoonup> stored_table) \<Rightarrow> integration \<Rightarrow> 'd
     \<Rightarrow> (thrown + unit) \<times> integration \<times> 'd" where
  "buildSchema D U datasourceId entities this d =
     (case buildSchema_tables D U datasourceId this d of
        (Inl err, this', d') \<Rightarrow> (Inl err, this', d')
      | (Inr tables, this', d') \<Rightarrow>
          (case finaliseExternalTables U tables entities of
             (final_tables, final_errors) \<Rightarrow>
               (Inr (), this'\<lparr>this_tables := final_tables, this_schemaErrors := final_errors\<rparr>, d')))"

section \<open>Methods of other modules, modelled from the spec\<close>

text \<open>
  Modelled from the spec: \<^verbatim>\<open>queryWithReturning\<close>, the method of the base class \<^verbatim>\<open>Sql\<close>
  (\<^verbatim>\<open>./base/sql\<close>) that \<^verbatim>\<open>query\<close> calls, is missing. Spec 2 (control flow) and 4.3: the SQL
  dialect builder renders the query description into SQL text and bindings, the
  rendered query is executed (here by the function \<^verbatim>\<open>query\<close> hands over, with the
  operation of the description), and the result is normalised (here by the second
  function \<^verbatim>\<open>query\<close> hands over). The builder, the method \<^verbatim>\<open>_query\<close>, is an argument; by
  spec 4.2 it may refuse to render (\<^verbatim>\<open>UnsafeOperationError\<close>). An exception of either
  step leaves the method.
\<close>

definition queryWithReturning ::
  "('json \<Rightarrow> thrown + SqlQuery) \<Rightarrow> ('json \<Rightarrow> string) \<Rightarrow> 'json \<Rightarrow>
   (SqlQuery \<Rightarrow> string \<Rightarrow> 'd \<Rightarrow> (thrown + response) \<times> 'd) \<Rightarrow> (response \<Rightarrow> row list) \<Rightarrow> 'd
     \<Rightarrow> (thrown + row list) \<times> 'd" where
  "queryWithReturning render operation_of json execute normalise d =
     (case render json of
        Inl err \<Rightarrow> (Inl err, d)
      | Inr rendered \<Rightarrow>
          (case execute rendered (operation_of json) d of
             (Inl err, d') \<Rightarrow> (Inl err, d')
           | (Inr res, d') \<Rightarrow> (Inr (normalise res), d')))"

text \<open>
  Modelled from the spec: the merge of one fresh table, a step of
  \<^verbatim>\<open>finaliseExternalTables\<close> of \<^verbatim>\<open>./utils\<close>, which is missing. Spec 4.5: if a prior table with
  the same id exists, its caller-owned fields are copied forward; the id, name, schema,
  primary-key and auto-column fields are the freshly introspected ones.
\<close>

definition merge_table :: "table \<Rightarrow> stored_table option \<Rightarrow> stored_table" where
  "merge_table fresh prior =
     \<lparr>t_id = t_id fresh, t_primary = t_primary fresh, t_name = t_name fresh,
      t_schema = t_schema fresh,
      caller_owned = (case prior of
                        Some p \<Rightarrow> (if t_id p = t_id fresh then caller_owned p else [])
                      | None \<Rightarrow> [])\<rparr>"

text \<open>
  Modelled from the spec: \<^verbatim>\<open>finaliseExternalTables\<close> of \<^verbatim>\<open>./utils\<close>, the schema merge
  engine, is missing. Spec 4.5: every fresh table is merged with the prior table of the
  same id, and a prior table that is no longer present upstream is retained (the call in
  \<^verbatim>\<open>buildSchema\<close> requests no pruning). The spec names no error the merge itself reports.
  The result is keyed like the two arguments of the call, by table name (line 227 of the
  source), and the prior table of the same id is looked up under that name.
\<close>

definition merge_tables ::
  "(string \<rightharpoonup> table) \<Rightarrow> (string \<rightharpoonup> stored_table)
     \<Rightarrow> (string \<rightharpoonup> stored_table) \<times> (string \<rightharpoonup> string)" where
  "merge_tables freshTables priorTables =
     ((\<lambda>key. case freshTables key of
               Some fresh \<Rightarrow> Some (merge_table fresh (priorTables key))
             | None \<Rightarrow> priorTables key),
      Map.empty)"

section \<open>Vocabulary of the statements and sample inputs\<close>

text \<open>
  A driver wrapped so that it also records every request it is sent: the parameters
  registered on the request and the SQL text.
\<close>

definition recording :: "'d driver \<Rightarrow> ('d \<times> (request \<times> string) list) driver" where
  "recording D =
     \<lparr>pool_connect = (\<lambda>p (d, log). case pool_connect D p d of (r, d') \<Rightarrow> (r, (d', log))),
      request_query = (\<lambda>c req text (d, log).
         case request_query D c req text d of (r, d') \<Rightarrow> (r, (d', log @ [(req, text)])))\<rparr>"

text \<open>
  The parameters \<^verbatim>\<open>internalQuery\<close> registers for a query, and what the driver throws in
  one execution of a method: at \<^verbatim>\<open>pool.connect()\<close> or, once connected, at the
  \<^verbatim>\<open>request.query\<close> of the one request the method sends.
\<close>

definition request_of :: "SqlQuery \<Rightarrow> request" where
  "request_of q = (case bindings q of Some bs \<Rightarrow> input_bindings 0 bs [] | None \<Rightarrow> [])"



text \<open>
  The freshly introspected tables of a run, for looking a table up (none when the run threw).
\<close>

definition fresh_tables ::
  "'d driver \<Rightarrow> utils \<Rightarrow> string \<Rightarrow> integration \<Rightarrow> 'd \<Rightarrow> (string \<rightharpoonup> table)" where
  "fresh_tables D U datasourceId this d =
     (case fst (buildSchema_tables D U datasourceId this d) of
        Inr tabs \<Rightarrow> tabs
      | Inl err \<Rightarrow> Map.empty)"

text \<open>
  Sample implementations of the helpers, a driver that answers by the SQL text it is sent,
  and sample catalogs: the inputs at which the statements below are evaluated.
\<close>

definition sample_utils :: utils where
  "sample_utils =
     \<lparr>getSqlQuery = (\<lambda>q. case q of
                             Query_string s \<Rightarrow> \<lparr>sql = s, bindings = None\<rparr>
                           | Query_object q' \<Rightarrow> q'),
      buildExternalTableId = (\<lambda>ds t. ds @ ''__'' @ to_string t),
      convertSqlType = (\<lambda>t. if t = Str ''int'' \<or> t = Str ''decimal'' then ''number'' else ''string''),
      finaliseExternalTables = merge_tables,
      Operation_CREATE = ''CREATE''\<rparr>"

definition catalog_driver :: "(string \<Rightarrow> thrown + response) \<Rightarrow> unit driver" where
  "catalog_driver answer =
     \<lparr>pool_connect = (\<lambda>p d. (Inr p, d)),
      request_query = (\<lambda>c req stmt d. (answer stmt, d))\<rparr>"

definition rows_of :: "row list \<Rightarrow> thrown + response" where
  "rows_of rs = Inr \<lparr>recordset = Some rs\<rparr>"

definition sample_config :: MSSQLConfig where
  "sample_config =
     \<lparr>user = ''sa'', password = ''secret'', server = ''localhost'', port = 1433,
      database = ''root'', encrypt = Some True\<rparr>"

definition fresh_process :: process where
  "fresh_process = \<lparr>static_pool = None, pools = []\<rparr>"

definition sample_integration :: integration where
  "sample_integration = fst (new_SqlServerIntegration sample_config fresh_process)"

definition down_catalog :: "string \<Rightarrow> thrown + response" where
  "down_catalog stmt = Inl (Error_object ''RequestError'' ''Connection is closed.'')"

definition empty_catalog :: "string \<Rightarrow> thrown + response" where
  "empty_catalog stmt = rows_of []"

definition no_recordset_catalog :: "string \<Rightarrow> thrown + response" where
  "no_recordset_catalog stmt = Inr \<lparr>recordset = None\<rparr>"

definition sample_columns :: "row list" where
  "sample_columns =
     [[(''COLUMN_NAME'', Str ''id''), (''DATA_TYPE'', Str ''int'')],
      [(''COLUMN_NAME'', Str ''total''), (''DATA_TYPE'', Str ''decimal'')],
      [(''COLUMN_NAME'', Null), (''DATA_TYPE'', Str ''int'')]]"

definition sample_constraints :: "row list" where
  "sample_constraints = [[(''CONSTRAINT_TYPE'', Str ''PRIMARY KEY''), (''COLUMN_NAME'', Str ''id'')]]"

definition sample_auto_columns :: "row list" where
  "sample_auto_columns =
     [[(''IS_COMPUTED'', Num 0), (''IS_IDENTITY'', Num 1), (''COLUMN_NAME'', Str ''id'')],
      [(''IS_COMPUTED'', Num 0), (''IS_IDENTITY'', Num 0), (''COLUMN_NAME'', Str ''total'')]]"

definition uniform_catalog :: "string list \<Rightarrow> string \<Rightarrow> thrown + response" where
  "uniform_catalog names stmt =
     (if stmt = TABLES_SQL then rows_of (map (\<lambda>n. [(''TABLE_NAME'', Str n)]) names)
      else if stmt \<in> set (map getDefinitionSQL names) then rows_of sample_columns
      else if stmt \<in> set (map getConstraintsSQL names) then rows_of sample_constraints
      else if stmt \<in> set (map getAutoColumnsSQL names) then rows_of sample_auto_columns
      else rows_of [])"

definition abc_catalog :: "string \<Rightarrow> thrown + response" where
  "abc_catalog stmt =
     (if stmt = getDefinitionSQL ''b''
      then Inl (Error_object ''RequestError'' ''Timeout: Request failed to complete in 15000ms'')
      else uniform_catalog [''a'', ''b'', ''c''] stmt)"

definition t_catalog :: "string \<Rightarrow> thrown + response" where
  "t_catalog stmt =
     (if stmt = getAutoColumnsSQL ''t''
      then Inl (Error_object ''RequestError'' ''Invalid object name'')
      else uniform_catalog [''t''] stmt)"


definition sample_render :: "string \<times> SqlQuery \<Rightarrow> thrown + SqlQuery" where
  "sample_render json = Inr (snd json)"

section \<open>Lemmas about the model\<close>

lemmas model_defs =
  buildSchema_def buildSchema_tables_def connect_def runSQL_def internalQuery_def
  introspect_table_def build_table_def primaryKeys_of_def autoColumns_of_def js_find_def
  js_prop_def js_set_def new_Error_def MASTER_TABLES_def TABLES_SQL_def getDefinitionSQL_def
  getConstraintsSQL_def getAutoColumnsSQL_def sq_def nl_def
  new_SqlServerIntegration_def new_ConnectionPool_def

lemmas sample_defs =
  sample_utils_def catalog_driver_def rows_of_def sample_config_def fresh_process_def
  sample_integration_def recording_def

lemmas catalog_defs =
  uniform_catalog_def sample_columns_def sample_constraints_def sample_auto_columns_def

lemma connect_Inr:
  assumes "connect D this d = (Inr u, this', d')"
  shows "\<exists>c. this' = this\<lparr>this_client := Some c\<rparr>"
  using assms by (auto simp: connect_def split: option.splits prod.splits sum.splits)

lemma indexOf_ge: "- 1 \<le> indexOf xs v"
  by (induction xs) (auto simp: Let_def)

lemma indexOf_absent: "indexOf xs v = - 1 \<longleftrightarrow> v \<notin> Str ` set xs"
proof (induction xs)
  case Nil
  show ?case by simp
next
  case (Cons x xs)
  have "- 1 \<le> indexOf xs v" by (rule indexOf_ge)
  with Cons show ?case by (auto simp: Let_def)
qed

lemma js_find_truthy:
  "truthy (js_find (\<lambda>col. col = Str name) auto_cols) = (name \<noteq> [] \<and> Str name \<in> set auto_cols)"
  by (induction auto_cols) (auto simp: js_find_def)

lemma schema_loop_dom:
  "dom (schema_loop U ac defs schema) =
     dom schema \<union>
     {name. name \<noteq> ''__proto__'' \<and> (\<exists>def \<in> set defs. js_prop def ''COLUMN_NAME'' = Str name)}"
  by (induction defs arbitrary: schema) (auto simp: js_set_def split: jsval.splits)

lemma schema_loop_entry:
  assumes "schema_loop U ac defs schema name = Some f"
  shows "schema name = Some f \<or>
         (f_name f = name \<and> autocolumn f = truthy (js_find (\<lambda>col. col = Str name) ac))"
  using assms
proof (induction defs arbitrary: schema)
  case Nil
  then show ?case by simp
next
  case (Cons def rest)
  show ?case
  proof (cases "\<exists>n. js_prop def ''COLUMN_NAME'' = Str n")
    case True
    then obtain n where n: "js_prop def ''COLUMN_NAME'' = Str n" by blast
    define entry where "entry =
      \<lparr>autocolumn = truthy (js_find (\<lambda>col. col = Str n) ac), f_name = n,
       f_type = convertSqlType U (js_prop def ''DATA_TYPE'')\<rparr>"
    from Cons.prems n have "schema_loop U ac rest (js_set schema n entry) name = Some f"
      by (simp add: entry_def)
    from Cons.IH [OF this] show ?thesis
      by (cases "name = n") (auto simp: entry_def js_set_def split: if_splits)
  next
    case False
    with Cons.prems have "schema_loop U ac rest schema name = Some f"
      by (cases "js_prop def ''COLUMN_NAME''") auto
    from Cons.IH [OF this] show ?thesis .
  qed
qed

lemma input_bindings_zip:
  "input_bindings n bs req = req @ zip (map (\<lambda>i. ''p'' @ show_nat i) [n..<n + length bs]) bs"
proof (induction bs arbitrary: n req)
  case Nil
  show ?case by simp
next
  case (Cons b bs)
  have "[n..<n + length (b # bs)] = n # [Suc n..<Suc n + length bs]"
    by (simp add: upt_rec)
  with Cons show ?case by simp
qed

lemma introspect_table_Inr:
  assumes "introspect_table D U this ds n d = (Inr t, d')"
  shows "t_name t = n \<and> t_id t = buildExternalTableId U ds n"
  using assms
  by (auto simp: introspect_table_def build_table_def Let_def split: prod.splits sum.splits option.splits)

lemma introspect_tables_append:
  "introspect_tables D U this ds (xs @ ys) tabs d =
     (case introspect_tables D U this ds xs tabs d of
        (Inl e, d') \<Rightarrow> (Inl e, d')
      | (Inr tabs', d') \<Rightarrow> introspect_tables D U this ds ys tabs' d')"
  by (induction xs arbitrary: tabs d) (auto split: prod.splits sum.splits)

lemma introspect_tables_entries:
  assumes "introspect_tables D U this ds names tabs d = (Inr tabs', d')"
      and "tabs' k = Some t"
  shows "tabs k = Some t \<or>
         (\<exists>n \<in> set names. k = to_string n \<and> t_name t = n \<and> t_id t = buildExternalTableId U ds n)"
  using assms
proof (induction names arbitrary: tabs d)
  case Nil
  then show ?case by simp
next
  case (Cons n names)
  from Cons.prems(1) obtain t0 d0 where
    step: "introspect_table D U this ds n d = (Inr t0, d0)" and
    rest: "introspect_tables D U this ds names (js_set tabs (to_string n) t0) d0 = (Inr tabs', d')"
    by (auto split: prod.splits sum.splits)
  from Cons.IH [OF rest Cons.prems(2)] introspect_table_Inr [OF step]
  show ?case by (auto simp: js_set_def split: if_splits)
qed



lemma show_nat_last: "\<exists>pre k. show_nat n = pre @ [digit_char k] \<and> k < 10"
proof (cases "n < 10")
  case True
  then have "show_nat n = [] @ [digit_char n]" by (simp add: show_nat.simps)
  with True show ?thesis by blast
next
  case False
  then have "show_nat n = show_nat (n div 10) @ [digit_char (n mod 10)]"
    by (subst show_nat.simps) simp
  moreover have "n mod 10 < 10" by simp
  ultimately show ?thesis by blast
qed

lemma digit_char_cases:
  "k < 10 \<Longrightarrow> digit_char k \<in> set ''0123456789''"
  unfolding digit_char_def by (rule nth_mem) simp

lemma to_string_master:
  assumes "to_string v \<in> set MASTER_TABLES"
  shows "v = Str (to_string v)"
proof (cases v)
  case (Num n)
  define s where "s = to_string v"
  obtain pre k where "s = pre @ [digit_char k]" "k < 10"
  proof (cases "sint n < 0")
    case True
    obtain pre k where "show_nat (nat (- sint n)) = pre @ [digit_char k]" "k < 10"
      using show_nat_last by blast
    with True Num have "s = (''-'' @ pre) @ [digit_char k]" by (simp add: s_def)
    with \<open>k < 10\<close> that show ?thesis by blast
  next
    case False
    obtain pre k where "show_nat (nat (sint n)) = pre @ [digit_char k]" "k < 10"
      using show_nat_last by blast
    with False Num have "s = pre @ [digit_char k]" by (simp add: s_def)
    with \<open>k < 10\<close> that show ?thesis by blast
  qed
  then have "last s \<in> set ''0123456789''" using digit_char_cases by simp
  moreover from assms have "s \<in> set MASTER_TABLES" by (simp add: s_def)
  ultimately show ?thesis by (auto simp: MASTER_TABLES_def)
qed (use assms in \<open>auto simp: MASTER_TABLES_def split: if_splits\<close>)

lemma constructor_creates_pool:
  "new_SqlServerIntegration cfg pr =
     (\<lparr>config = cfg, this_pool = Some (length (pools pr)), this_client = None,
       this_tables = Map.empty, this_schemaErrors = Map.empty\<rparr>,
      pr\<lparr>pools := pools pr @
             [\<lparr>spread = cfg\<lparr>encrypt := None\<rparr>, options_encrypt = encrypt cfg,
               options_enableArithAbort = True\<rparr>]\<rparr>)"
  by (simp add: new_SqlServerIntegration_def new_ConnectionPool_def)

lemma connect_keeps_pool:
  "this_pool (fst (snd (connect D this d))) = this_pool this"
  by (auto simp: connect_def split: option.splits prod.splits sum.splits)

lemma internalQuery_recorded:
  "snd (snd (internalQuery (recording D) U (Some c) qry operation (d, log))) =
     log @ [(case bindings qry of Some bs \<Rightarrow> input_bindings 0 bs [] | None \<Rightarrow> [],
             if operation = Some (Operation_CREATE U)
             then sql qry @ ''; SELECT SCOPE_IDENTITY() AS id;'' else sql qry)]"
  by (simp add: internalQuery_def recording_def Let_def split: prod.splits sum.splits)

lemma buildSchema_tables_entries:
  assumes "buildSchema_tables D U ds this d = (Inr tabs, r)" and "tabs k = Some t"
  shows "\<exists>n. indexOf MASTER_TABLES n = - 1 \<and> k = to_string n \<and> t_name t = n \<and>
             t_id t = buildExternalTableId U ds n"
proof -
  from assms(1) obtain this' records d1 d2 where
    loop: "introspect_tables D U this' ds
             (filter (\<lambda>name. indexOf MASTER_TABLES name = - 1)
                (map (\<lambda>record. js_prop record ''TABLE_NAME'') records))
             Map.empty d1 = (Inr tabs, d2)"
    by (auto simp: buildSchema_tables_def Let_def split: prod.splits sum.splits option.splits)
  from introspect_tables_entries [OF loop assms(2)] show ?thesis by auto
qed

lemma buildSchema_Inl:
  assumes "buildSchema_tables D U ds this d = (Inl e, r)"
  shows "buildSchema D U ds entities this d = (Inl e, r)"
  using assms by (cases r) (simp add: buildSchema_def)

lemma failed_fetch_fails_table:
  assumes "runSQL D U this (getDefinitionSQL (to_string k)) d = (Inl e, d') \<or>
           (\<exists>defs da. runSQL D U this (getDefinitionSQL (to_string k)) d = (Inr defs, da) \<and>
              (runSQL D U this (getConstraintsSQL (to_string k)) da = (Inl e, d') \<or>
               (\<exists>cons db. runSQL D U this (getConstraintsSQL (to_string k)) da = (Inr cons, db) \<and>
                  runSQL D U this (getAutoColumnsSQL (to_string k)) db = (Inl e, d'))))"
  shows "introspect_table D U this ds k d = (Inl e, d')"
  using assms by (auto simp: introspect_table_def)




lemma internalQuery_sends:
  "snd (snd (internalQuery (recording D) U (Some c) qry operation (d, log))) =
     log @ [(request_of qry,
             if operation = Some (Operation_CREATE U)
             then sql qry @ ''; SELECT SCOPE_IDENTITY() AS id;'' else sql qry)]"
  by (simp add: internalQuery_def recording_def request_of_def Let_def
        split: prod.splits sum.splits)

lemma connect_recording:
  assumes "this_pool this = Some p" and "pool_connect D p d = (Inr c, d')"
  shows "connect (recording D) this (d, log) = (Inr (), this\<lparr>this_client := Some c\<rparr>, (d', log))"
  using assms by (simp add: connect_def recording_def)

lemma connect_then_query_sends:
  assumes "this_pool this = Some p" and "pool_connect D p d = (Inr c, d')"
  shows "snd (snd (snd (case connect (recording D) this (d, []) of
                  (Inl err, this', d') \<Rightarrow> (Inl err, this', d')
                | (Inr _, this', d') \<Rightarrow>
                    (case internalQuery (recording D) U (this_client this') qry op d' of
                       (Inl err, d'') \<Rightarrow> (Inl err, this', d'')
                     | (Inr res, d'') \<Rightarrow> (Inr (f res), this', d''))))) =
         [(request_of qry,
           if op = Some (Operation_CREATE U)
           then sql qry @ ''; SELECT SCOPE_IDENTITY() AS id;'' else sql qry)]"
proof -
  obtain r d2 where q: "internalQuery (recording D) U (Some c) qry op (d', []) = (r, d2)"
    by (cases "internalQuery (recording D) U (Some c) qry op (d', [])")
  with internalQuery_sends [of D U c qry op d' "[]"]
  have "snd d2 = [(request_of qry,
           if op = Some (Operation_CREATE U)
           then sql qry @ ''; SELECT SCOPE_IDENTITY() AS id;'' else sql qry)]"
    by simp
  with q connect_recording [OF assms, of "[]"] show ?thesis
    by (cases r) simp_all
qed


lemma bindings_are_positional_parameters:
  "snd (snd (internalQuery (recording D) U (Some c) \<lparr>sql = s, bindings = Some bs\<rparr> operation
       (d, []))) =
     [(zip (map (\<lambda>i. ''p'' @ show_nat i) [0..<length bs]) bs,
       if operation = Some (Operation_CREATE U)
       then s @ ''; SELECT SCOPE_IDENTITY() AS id;'' else s)]"
  by (simp add: internalQuery_recorded input_bindings_zip)

lemma schema_of_other_columns:
  "\<exists>t. build_table U ds tableName (Some defs) (Some constraints) (Some columns) = Inr t \<and>
       dom (t_schema t) =
         {name. name \<noteq> ''__proto__'' \<and> (\<exists>def \<in> set defs. js_prop def ''COLUMN_NAME'' = Str name)} \<and>
       (\<forall>name f. t_schema t name = Some f \<longrightarrow>
          f_name f = name \<and>
          autocolumn f = (name \<noteq> [] \<and> Str name \<in> set (autoColumns_of columns)))"
proof -
  let ?schema = "schema_loop U (autoColumns_of columns) defs Map.empty"
  have "dom ?schema =
      {name. name \<noteq> ''__proto__'' \<and> (\<exists>def \<in> set defs. js_prop def ''COLUMN_NAME'' = Str name)}"
    by (simp add: schema_loop_dom)
  moreover have "f_name f = name \<and>
      autocolumn f = (name \<noteq> [] \<and> Str name \<in> set (autoColumns_of columns))"
    if "?schema name = Some f" for name f
    using schema_loop_entry [OF that] by (simp add: js_find_truthy)
  ultimately show ?thesis by (simp add: build_table_def)
qed

section \<open>buildSchema: what a failed fetch does\<close>

text \<open>
  C1, as stated, fails. Three tables \<^verbatim>\<open>a\<close>, \<^verbatim>\<open>b\<close>, \<^verbatim>\<open>c\<close>; the column fetch of \<^verbatim>\<open>b\<close> times
  out. \<^verbatim>\<open>buildSchema\<close> throws the wrapped driver error: no table is stored, no error entry
  is recorded, and after the failed fetch nothing more is sent, so \<^verbatim>\<open>c\<close> is never
  introspected.
\<close>

theorem table_failure_counterexample:
  "fst (buildSchema (recording (catalog_driver abc_catalog)) sample_utils ''ds'' Map.empty
          sample_integration ((), [])) =
     Inl (Error_object ''Error'' ''RequestError: Timeout: Request failed to complete in 15000ms'') \<and>
   this_tables (fst (snd (buildSchema (recording (catalog_driver abc_catalog)) sample_utils ''ds''
          Map.empty sample_integration ((), [])))) = Map.empty \<and>
   this_schemaErrors (fst (snd (buildSchema (recording (catalog_driver abc_catalog)) sample_utils
          ''ds'' Map.empty sample_integration ((), [])))) = Map.empty \<and>
   map snd (snd (snd (snd (buildSchema (recording (catalog_driver abc_catalog)) sample_utils ''ds''
          Map.empty sample_integration ((), []))))) =
     [TABLES_SQL, getDefinitionSQL ''a'', getConstraintsSQL ''a'', getAutoColumnsSQL ''a'',
      getDefinitionSQL ''b'']"
  by (simp add: model_defs sample_defs catalog_defs abc_catalog_def)

text \<open>
  C1, amended. If the introspection of one table fails (one of its three fetches throws,
  or resolves without a recordset), \<^verbatim>\<open>buildSchema\<close> aborts with that error: the tables
  introspected before it are dropped with it, \<^verbatim>\<open>this.tables\<close> and \<^verbatim>\<open>this.schemaErrors\<close>
  stay as they were, and the driver is left where the failed fetch left it, so the
  remaining tables are not introspected.
\<close>

theorem table_failure_aborts_buildSchema:
  assumes "connect D this d = (Inr u, this', d0)"
      and "runSQL D U this' TABLES_SQL d0 = (Inr (Some records), d1)"
      and "filter (\<lambda>name. indexOf MASTER_TABLES name = - 1)
             (map (\<lambda>record. js_prop record ''TABLE_NAME'') records) = before @ k # after"
      and "introspect_tables D U this' ds before Map.empty d1 = (Inr tabs, d2)"
      and "introspect_table D U this' ds k d2 = (Inl e, d3)"
  shows "buildSchema D U ds entities this d = (Inl e, this', d3) \<and>
         this_tables this' = this_tables this \<and>
         this_schemaErrors this' = this_schemaErrors this"
proof -
  have "introspect_tables D U this' ds (before @ k # after) Map.empty d1 = (Inl e, d3)"
    using assms(4,5) by (simp add: introspect_tables_append)
  with assms(1,2,3) have "buildSchema_tables D U ds this d = (Inl e, this', d3)"
    by (simp add: buildSchema_tables_def)
  then have "buildSchema D U ds entities this d = (Inl e, this', d3)"
    by (rule buildSchema_Inl)
  moreover from connect_Inr [OF assms(1)]
  have "this_tables this' = this_tables this \<and> this_schemaErrors this' = this_schemaErrors this"
    by auto
  ultimately show ?thesis by simp
qed

theorem table_failure_aborts_buildSchema_witness:
  "buildSchema (catalog_driver abc_catalog) sample_utils ''ds'' Map.empty sample_integration () =
     (Inl (Error_object ''Error'' ''RequestError: Timeout: Request failed to complete in 15000ms''),
      sample_integration\<lparr>this_client := Some 0\<rparr>, ()) \<and>
   this_tables (sample_integration\<lparr>this_client := Some 0\<rparr>) = this_tables sample_integration \<and>
   this_schemaErrors (sample_integration\<lparr>this_client := Some 0\<rparr>) =
     this_schemaErrors sample_integration"
proof -
  let ?D = "catalog_driver abc_catalog"
  let ?this' = "sample_integration\<lparr>this_client := Some 0\<rparr>"
  let ?records = "[[(''TABLE_NAME'', Str ''a'')], [(''TABLE_NAME'', Str ''b'')],
                   [(''TABLE_NAME'', Str ''c'')]]"
  define tabs where "tabs =
    (case fst (introspect_tables ?D sample_utils ?this' ''ds'' [Str ''a''] Map.empty ()) of
       Inr t \<Rightarrow> t | Inl err \<Rightarrow> Map.empty)"
  have h1: "connect ?D sample_integration () = (Inr (), ?this', ())"
    by (simp add: model_defs sample_defs)
  have h2: "runSQL ?D sample_utils ?this' TABLES_SQL () = (Inr (Some ?records), ())"
    by (simp add: model_defs sample_defs catalog_defs abc_catalog_def)
  have h3: "filter (\<lambda>name. indexOf MASTER_TABLES name = - 1)
             (map (\<lambda>record. js_prop record ''TABLE_NAME'') ?records) =
            [Str ''a''] @ Str ''b'' # [Str ''c'']"
    by (simp add: js_prop_def MASTER_TABLES_def)
  have h4: "introspect_tables ?D sample_utils ?this' ''ds'' [Str ''a''] Map.empty () =
              (Inr tabs, ())"
    by (simp add: tabs_def model_defs sample_defs catalog_defs abc_catalog_def)
  have h5: "introspect_table ?D sample_utils ?this' ''ds'' (Str ''b'') () =
              (Inl (Error_object ''Error''
                 ''RequestError: Timeout: Request failed to complete in 15000ms''), ())"
    by (simp add: model_defs sample_defs catalog_defs abc_catalog_def)
  from table_failure_aborts_buildSchema [OF h1 h2 h3 h4 h5, of Map.empty]
  show ?thesis by simp
qed

text \<open>
  C6, as stated, fails in its "exactly": the table list is fetched (one table, \<^verbatim>\<open>t\<close>),
  and \<^verbatim>\<open>buildSchema\<close> is fatal all the same, because the fetch of the auto columns of
  \<^verbatim>\<open>t\<close> throws.
\<close>

theorem fatal_with_table_list_counterexample:
  "fst (runSQL (catalog_driver t_catalog) sample_utils (sample_integration\<lparr>this_client := Some 0\<rparr>)
          TABLES_SQL ()) = Inr (Some [[(''TABLE_NAME'', Str ''t'')]]) \<and>
   fst (buildSchema (catalog_driver t_catalog) sample_utils ''ds'' Map.empty sample_integration ()) =
     Inl (Error_object ''Error'' ''RequestError: Invalid object name'')"
  by (simp add: model_defs sample_defs catalog_defs t_catalog_def)

text \<open>
  C6, amended. Whenever the table list is unavailable (the fetch of the table names throws,
  or resolves without a recordset), \<^verbatim>\<open>buildSchema\<close> fails: with the wrapped driver error,
  or with the string \<^verbatim>\<open>Unable to get list of tables in database\<close>. No table introspection
  proceeds: the driver is left where the table-list fetch left it, and \<^verbatim>\<open>this.tables\<close> and
  \<^verbatim>\<open>this.schemaErrors\<close> stay as they were. (It is not the only fatal case.)
\<close>

theorem table_list_unavailable_is_fatal:
  assumes "connect D this d = (Inr u, this', d0)"
      and "runSQL D U this' TABLES_SQL d0 = (Inl e, d1) \<or>
           (runSQL D U this' TABLES_SQL d0 = (Inr None, d1) \<and>
            e = Thrown_string ''Unable to get list of tables in database'')"
  shows "buildSchema D U ds entities this d = (Inl e, this', d1) \<and>
         this_tables this' = this_tables this \<and>
         this_schemaErrors this' = this_schemaErrors this"
proof -
  from assms have "buildSchema_tables D U ds this d = (Inl e, this', d1)"
    by (auto simp: buildSchema_tables_def)
  then have "buildSchema D U ds entities this d = (Inl e, this', d1)"
    by (rule buildSchema_Inl)
  moreover from connect_Inr [OF assms(1)]
  have "this_tables this' = this_tables this \<and> this_schemaErrors this' = this_schemaErrors this"
    by auto
  ultimately show ?thesis by simp
qed

theorem table_list_unavailable_is_fatal_witness:
  "buildSchema (recording (catalog_driver down_catalog)) sample_utils ''ds'' Map.empty
     sample_integration ((), []) =
     (Inl (Error_object ''Error'' ''RequestError: Connection is closed.''),
      sample_integration\<lparr>this_client := Some 0\<rparr>, ((), [([], TABLES_SQL)])) \<and>
   buildSchema (recording (catalog_driver no_recordset_catalog)) sample_utils ''ds'' Map.empty
     sample_integration ((), []) =
     (Inl (Thrown_string ''Unable to get list of tables in database''),
      sample_integration\<lparr>this_client := Some 0\<rparr>, ((), [([], TABLES_SQL)]))"
proof -
  let ?this' = "sample_integration\<lparr>this_client := Some 0\<rparr>"
  have c1: "connect (recording (catalog_driver down_catalog)) sample_integration ((), []) =
              (Inr (), ?this', ((), []))"
    by (simp add: model_defs sample_defs)
  have q1: "runSQL (recording (catalog_driver down_catalog)) sample_utils ?this' TABLES_SQL ((), []) =
              (Inl (Error_object ''Error'' ''RequestError: Connection is closed.''),
               ((), [([], TABLES_SQL)]))"
    by (simp add: runSQL_def internalQuery_def new_Error_def sample_defs down_catalog_def)
  have c2: "connect (recording (catalog_driver no_recordset_catalog)) sample_integration ((), []) =
              (Inr (), ?this', ((), []))"
    by (simp add: model_defs sample_defs)
  have q2: "runSQL (recording (catalog_driver no_recordset_catalog)) sample_utils ?this' TABLES_SQL
              ((), []) = (Inr None, ((), [([], TABLES_SQL)]))"
    by (simp add: runSQL_def internalQuery_def new_Error_def sample_defs no_recordset_catalog_def)
  from table_list_unavailable_is_fatal [OF c1 disjI1, OF q1, of "''ds''" Map.empty]
       table_list_unavailable_is_fatal [OF c2 disjI2, OF conjI, OF q2 refl, of "''ds''" Map.empty]
  show ?thesis by simp
qed

section \<open>Errors of the CRUD methods\<close>




section \<open>Results of create, update and delete\<close>




section \<open>Connection pools\<close>

text \<open>
  C4. The code at the failing input: two integrations constructed in one process from the
  same configuration. The guard \<^verbatim>\<open>if (!this.pool)\<close> reads an instance property that a
  new instance never has, so each constructor call makes a \<^verbatim>\<open>ConnectionPool\<close> of its own:
  the process holds two pools for the one configuration, the second integration does not
  reuse the first one's pool, and the static slot is still unset.
\<close>

theorem same_config_two_pools:
  "pools (snd (new_SqlServerIntegration sample_config
                 (snd (new_SqlServerIntegration sample_config fresh_process)))) =
     [\<lparr>spread = sample_config\<lparr>encrypt := None\<rparr>, options_encrypt = Some True,
       options_enableArithAbort = True\<rparr>,
      \<lparr>spread = sample_config\<lparr>encrypt := None\<rparr>, options_encrypt = Some True,
       options_enableArithAbort = True\<rparr>] \<and>
   this_pool (fst (new_SqlServerIntegration sample_config fresh_process)) = Some 0 \<and>
   this_pool (fst (new_SqlServerIntegration sample_config
                 (snd (new_SqlServerIntegration sample_config fresh_process)))) = Some 1 \<and>
   static_pool (snd (new_SqlServerIntegration sample_config
                 (snd (new_SqlServerIntegration sample_config fresh_process)))) = None"
  by (simp add: constructor_creates_pool fresh_process_def sample_config_def)

section \<open>What the methods send to the driver\<close>

text \<open>
  C5, as stated, fails for the method \<^verbatim>\<open>create\<close>: it passes no operation to
  \<^verbatim>\<open>internalQuery\<close>, so its INSERT is sent as it is, with no fetch of the generated
  identifier after it.
\<close>

theorem create_sends_plain_insert_counterexample:
  "snd (snd (snd (create (recording (catalog_driver no_recordset_catalog)) sample_utils
      (Query_object \<lparr>sql = ''insert into [orders] ([total]) values (@p0)'',
                     bindings = Some [Num 10]\<rparr>)
      sample_integration ((), [])))) =
     [([(''p0'', Num 10)], ''insert into [orders] ([total]) values (@p0)'')]"
  by (simp add: create_def js_or_def model_defs sample_defs no_recordset_catalog_def
        show_nat.simps digit_char_def)

text \<open>
  C5, amended. For a CREATE operation executed through \<^verbatim>\<open>query\<close>, whose query function is
  the one caller that passes the operation on, the driver is sent one request: the
  rendered INSERT followed by \<^verbatim>\<open>; SELECT SCOPE_IDENTITY() AS id;\<close>, the fetch of the last
  generated identifier. For every other operation the request is the rendered statement
  as it is, and so it is for the methods \<^verbatim>\<open>create\<close>, \<^verbatim>\<open>read\<close>, \<^verbatim>\<open>update\<close> and \<^verbatim>\<open>delete\<close>,
  which pass no operation.
\<close>

theorem create_operation_appends_identity_fetch:
  assumes "this_pool this = Some p" and "pool_connect D p d = (Inr c, d')"
      and "render json = Inr rq"
  shows "snd (snd (snd (query operation_of (queryWithReturning render operation_of) (recording D) U
                 json this (d, [])))) =
           [(request_of rq,
             if operation_of json = Operation_CREATE U
             then sql rq @ ''; SELECT SCOPE_IDENTITY() AS id;'' else sql rq)] \<and>
         snd (snd (queryFn (recording D) U (this\<lparr>this_client := Some c\<rparr>) rq op (d', []))) =
           [(request_of rq,
             if op = Operation_CREATE U
             then sql rq @ ''; SELECT SCOPE_IDENTITY() AS id;'' else sql rq)] \<and>
         snd (snd (snd (create (recording D) U q this (d, [])))) =
           [(request_of (getSqlQuery U q), sql (getSqlQuery U q))] \<and>
         snd (snd (snd (read (recording D) U q this (d, [])))) =
           [(request_of (getSqlQuery U q), sql (getSqlQuery U q))] \<and>
         snd (snd (snd (update (recording D) U q this (d, [])))) =
           [(request_of (getSqlQuery U q), sql (getSqlQuery U q))] \<and>
         snd (snd (snd (delete (recording D) U q this (d, [])))) =
           [(request_of (getSqlQuery U q), sql (getSqlQuery U q))]"
proof (intro conjI)
  have "query operation_of (queryWithReturning render operation_of) (recording D) U json this (d, []) =
        (case connect (recording D) this (d, []) of
           (Inl err, this', d') \<Rightarrow> (Inl err, this', d')
         | (Inr _, this', d') \<Rightarrow>
             (case internalQuery (recording D) U (this_client this') rq (Some (operation_of json)) d' of
                (Inl err, d'') \<Rightarrow> (Inl err, this', d'')
              | (Inr res, d'') \<Rightarrow> (Inr (processFn (operation_of json) res), this', d'')))"
    using assms(3)
    by (auto simp: query_def queryWithReturning_def queryFn_def Let_def
          split: prod.splits sum.splits)
  then show "snd (snd (snd (query operation_of (queryWithReturning render operation_of)
                 (recording D) U json this (d, [])))) =
           [(request_of rq,
             if operation_of json = Operation_CREATE U
             then sql rq @ ''; SELECT SCOPE_IDENTITY() AS id;'' else sql rq)]"
    using connect_then_query_sends [OF assms(1,2), where U = U and qry = rq
        and op = "Some (operation_of json)" and f = "processFn (operation_of json)"]
    by simp
  show "snd (snd (queryFn (recording D) U (this\<lparr>this_client := Some c\<rparr>) rq op (d', []))) =
           [(request_of rq,
             if op = Operation_CREATE U
             then sql rq @ ''; SELECT SCOPE_IDENTITY() AS id;'' else sql rq)]"
    using internalQuery_sends [of D U c rq "Some op" d' "[]"] by (simp add: queryFn_def)
  show "snd (snd (snd (create (recording D) U q this (d, [])))) =
           [(request_of (getSqlQuery U q), sql (getSqlQuery U q))]"
    using connect_then_query_sends [OF assms(1,2), where U = U and qry = "getSqlQuery U q"
        and op = None and f = "\<lambda>res. js_or (recordset res) [[(''created'', Bool True)]]"]
    by (simp add: create_def)
  show "snd (snd (snd (read (recording D) U q this (d, [])))) =
           [(request_of (getSqlQuery U q), sql (getSqlQuery U q))]"
    using connect_then_query_sends [OF assms(1,2), where U = U and qry = "getSqlQuery U q"
        and op = None and f = recordset]
    by (simp add: read_def)
  show "snd (snd (snd (update (recording D) U q this (d, [])))) =
           [(request_of (getSqlQuery U q), sql (getSqlQuery U q))]"
    using connect_then_query_sends [OF assms(1,2), where U = U and qry = "getSqlQuery U q"
        and op = None and f = "\<lambda>res. js_or (recordset res) [[(''updated'', Bool True)]]"]
    by (simp add: update_def)
  show "snd (snd (snd (delete (recording D) U q this (d, [])))) =
           [(request_of (getSqlQuery U q), sql (getSqlQuery U q))]"
    using connect_then_query_sends [OF assms(1,2), where U = U and qry = "getSqlQuery U q"
        and op = None and f = "\<lambda>res. js_or (recordset res) [[(''deleted'', Bool True)]]"]
    by (simp add: delete_def)
qed

theorem create_operation_appends_identity_fetch_witness:
  "snd (snd (snd (query fst (queryWithReturning sample_render fst)
      (recording (catalog_driver empty_catalog)) sample_utils
      (''CREATE'', \<lparr>sql = ''insert into [orders] ([total]) values (@p0)'', bindings = Some [Num 10]\<rparr>)
      sample_integration ((), [])))) =
     [([(''p0'', Num 10)],
       ''insert into [orders] ([total]) values (@p0); SELECT SCOPE_IDENTITY() AS id;'')] \<and>
   snd (snd (snd (query fst (queryWithReturning sample_render fst)
      (recording (catalog_driver empty_catalog)) sample_utils
      (''READ'', \<lparr>sql = ''select * from [orders] where [id] = @p0'', bindings = Some [Num 1]\<rparr>)
      sample_integration ((), [])))) =
     [([(''p0'', Num 1)], ''select * from [orders] where [id] = @p0'')]"
proof -
  let ?c = "(''CREATE'', \<lparr>sql = ''insert into [orders] ([total]) values (@p0)'',
                         bindings = Some [Num 10]\<rparr>)"
  let ?r = "(''READ'', \<lparr>sql = ''select * from [orders] where [id] = @p0'',
                       bindings = Some [Num 1]\<rparr>)"
  have pool: "this_pool sample_integration = Some 0"
    by (simp add: model_defs sample_defs)
  have conn: "pool_connect (catalog_driver empty_catalog) 0 () = (Inr 0, ())"
    by (simp add: sample_defs)
  have rc: "sample_render ?c = Inr (snd ?c)" and rr: "sample_render ?r = Inr (snd ?r)"
    by (simp_all add: sample_render_def)
  from create_operation_appends_identity_fetch [where render = sample_render and json = ?c
        and operation_of = fst and U = sample_utils, OF pool conn rc]
       create_operation_appends_identity_fetch [where render = sample_render and json = ?r
        and operation_of = fst and U = sample_utils, OF pool conn rr]
  show ?thesis
    by (simp add: request_of_def sample_utils_def show_nat.simps digit_char_def)
qed

text \<open>
  C8. The code at the failing input: a catalog that lists a table named
  \<^verbatim>\<open>x'; DROP TABLE users; --\<close>. The second request \<^verbatim>\<open>buildSchema\<close> sends, the column
  fetch of that table, carries no parameter, and its text has the table name written
  into the \<^verbatim>\<open>WHERE\<close> filter as it is, quote included.
\<close>

theorem table_name_is_inlined_in_metadata_fetch:
  "take 2 (snd (snd (snd (buildSchema
      (recording (catalog_driver (uniform_catalog [''x'' @ sq @ ''; DROP TABLE users; --''])))
      sample_utils ''ds'' Map.empty sample_integration ((), []))))) =
     [([], TABLES_SQL),
      ([], ''select *'' @ nl @
           ''              from INFORMATION_SCHEMA.COLUMNS'' @ nl @
           ''              where TABLE_NAME='' @ sq @ ''x'' @ sq @ ''; DROP TABLE users; --'' @ sq)]"
  by (simp add: model_defs sample_defs catalog_defs merge_tables_def)

section \<open>Table ids\<close>



section \<open>The denylist\<close>

text \<open>
  C9. No freshly introspected table is one of the \<^verbatim>\<open>MASTER_TABLES\<close>: for every name of
  the denylist the table set has no entry under that name and no table of that name,
  whatever the catalog returns.
\<close>

theorem master_tables_are_excluded:
  assumes "buildSchema_tables D U ds this d = (Inr tabs, r)"
      and "m \<in> set MASTER_TABLES"
  shows "tabs m = None \<and> (\<forall>k t. tabs k = Some t \<longrightarrow> t_name t \<noteq> Str m)"
proof -
  have *: "t_name t \<noteq> Str m \<and> k \<noteq> m" if "tabs k = Some t" for k t
  proof -
    from buildSchema_tables_entries [OF assms(1) that] obtain n where
      n: "indexOf MASTER_TABLES n = - 1" "k = to_string n" "t_name t = n" by blast
    from n(1) assms(2) have "n \<noteq> Str m" by (auto simp: indexOf_absent)
    moreover have "k \<noteq> m"
    proof
      assume "k = m"
      with n(2) assms(2) have "to_string n \<in> set MASTER_TABLES" by simp
      from to_string_master [OF this] n(2) \<open>k = m\<close> \<open>n \<noteq> Str m\<close> show False by simp
    qed
    ultimately show ?thesis using n(3) by simp
  qed
  then have "tabs m = None" by (cases "tabs m") auto
  with * show ?thesis by blast
qed

theorem master_tables_are_excluded_witness:
  "fresh_tables (catalog_driver (uniform_catalog [''orders'', ''spt_monitor'',
      ''MSreplication_options''])) sample_utils ''ds'' sample_integration () ''spt_monitor''
     = None \<and>
   map_option t_name
     (fresh_tables (catalog_driver (uniform_catalog [''orders'', ''spt_monitor'',
        ''MSreplication_options''])) sample_utils ''ds'' sample_integration () ''orders'')
     = Some (Str ''orders'')"
proof -
  let ?D = "catalog_driver (uniform_catalog [''orders'', ''spt_monitor'', ''MSreplication_options''])"
  define tabs where "tabs = fresh_tables ?D sample_utils ''ds'' sample_integration ()"
  have r: "buildSchema_tables ?D sample_utils ''ds'' sample_integration () =
             (Inr tabs, sample_integration\<lparr>this_client := Some 0\<rparr>, ())"
    by (simp add: tabs_def fresh_tables_def model_defs sample_defs catalog_defs)
  have m: "''spt_monitor'' \<in> set MASTER_TABLES"
    by (simp add: MASTER_TABLES_def)
  have o: "map_option t_name (tabs ''orders'') = Some (Str ''orders'')"
    by (simp add: tabs_def fresh_tables_def model_defs sample_defs catalog_defs)
  from master_tables_are_excluded [OF r m] o show ?thesis
    by (simp add: tabs_def)
qed

section \<open>The schema of a table\<close>

text \<open>
  C10. The code at the failing input: a table with the columns \<^verbatim>\<open>id\<close> and \<^verbatim>\<open>__proto__\<close>.
  Both names are strings, but \<^verbatim>\<open>schema["__proto__"] = {...}\<close> replaces the prototype of
  \<^verbatim>\<open>schema\<close> and creates no entry: the schema holds \<^verbatim>\<open>id\<close> alone.
\<close>

theorem proto_column_is_missing_from_schema:
  "(case build_table sample_utils ''ds'' (Str ''t'')
           (Some [[(''COLUMN_NAME'', Str ''id''), (''DATA_TYPE'', Str ''int'')],
                  [(''COLUMN_NAME'', Str ''__proto__''), (''DATA_TYPE'', Str ''int'')]])
           (Some []) (Some []) of
      Inr t \<Rightarrow>
        dom (t_schema t) = {''id''} \<and> t_schema t ''__proto__'' = None \<and>
        t_schema t ''id'' = Some \<lparr>autocolumn = False, f_name = ''id'', f_type = ''number''\<rparr>
    | Inl err \<Rightarrow> False)"
  by (simp add: build_table_def primaryKeys_of_def autoColumns_of_def js_find_def js_prop_def
        js_set_def sample_utils_def)

end
